theory Spec2Isabelle
  imports Complex_Main
begin

section \<open>Numeric primitives of \<^verbatim>\<open>p3a_functions.hpp\<close>\<close>

text \<open>
  The templates of the header are read over an exact ordered ring or field, and in the
  solver the C++ type \<^verbatim>\<open>double\<close> is read as \<^typ>\<open>real\<close>: there the arithmetic is exact,
  with no rounding, no NaN and no signed zero. The rounding of \<^verbatim>\<open>double\<close> is modelled
  for the closeness test, in the section after this one.
\<close>

text \<open>
  \<^verbatim>\<open>T average(T const& a, T const& b) { return (a + b) / 2; }\<close>
\<close>

definition average :: "'a::linordered_field \<Rightarrow> 'a \<Rightarrow> 'a" where
  "average a b = (a + b) / 2"

text \<open>
  \<^verbatim>\<open>constexpr double sign(double x) { return (x < 0.0) ? -1.0 : 1.0; }\<close>
\<close>

definition sign :: "real \<Rightarrow> real" where
  "sign x = (if x < 0 then - 1 else 1)"

text \<open>
  \<^verbatim>\<open>
  auto are_close(Value const& a, Value const& b, Tolerance const& tolerance)
  {
    using p3a::abs;
    auto const difference = abs(b - a);
    auto const scale = abs(a) + abs(b);
    return difference <= tolerance * p3a::max(scale, Value(1));
  }
  \<close>
  \<^verbatim>\<open>p3a::abs\<close> and \<^verbatim>\<open>p3a::max\<close> are the Kokkos functions of the same name, read as
  \<^const>\<open>abs\<close> and \<^const>\<open>max\<close>.
\<close>

definition are_close :: "'a::linordered_idom \<Rightarrow> 'a \<Rightarrow> 'a \<Rightarrow> bool" where
  "are_close a b tolerance =
     (let difference = \<bar>b - a\<bar>;
          scale = \<bar>a\<bar> + \<bar>b\<bar>
      in difference \<le> tolerance * max scale 1)"

section \<open>The closeness test at \<^verbatim>\<open>double\<close>\<close>

text \<open>
  \<open>are_close\<close> above is the template read over an exact ordered ring. The solver calls it
  at \<^verbatim>\<open>double\<close>, where the subtraction, the addition and the multiplication each round
  their exact result to the nearest double (IEEE 754 binary64, round to nearest, ties to
  even); \<^verbatim>\<open>abs\<close>, \<^verbatim>\<open>max\<close> and \<^verbatim>\<open><=\<close> are exact. A finite double is read as the real
  number it denotes.
\<close>

text \<open>The nearest integer, a tie going to the even one.\<close>

definition round_ties_even :: "real \<Rightarrow> int" where
  "round_ties_even y =
     (let f = \<lfloor>y\<rfloor>; d = y - of_int f
      in if d < 1 / 2 then f
         else if 1 / 2 < d then f + 1
         else if even f then f else f + 1)"

text \<open>
  The binary exponent of the doubles around \<open>x\<close>: the exponent of \<open>x\<close> itself, and -1022
  for everything below the smallest normal number (the subnormal range).
\<close>

definition double_exponent :: "real \<Rightarrow> int" where
  "double_exponent x = max \<lfloor>log 2 \<bar>x\<bar>\<rfloor> (- 1022)"

text \<open>
  Rounding to double: doubles with exponent \<open>e\<close> are the multiples of \<open>2 powi (e - 52)\<close>
  (53 significant bits). \<open>None\<close> stands for a result that overflows to an infinity,
  which is not followed further.
\<close>

definition round_to_double :: "real \<Rightarrow> real option" where
  "round_to_double x =
     (if x = 0 then Some 0
      else let ulp = 2 powi (double_exponent x - 52);
               y = of_int (round_ties_even (x / ulp)) * ulp
           in if 2 ^ 1024 \<le> \<bar>y\<bar> then None else Some y)"

text \<open>A real number is a finite double when rounding leaves it as it is.\<close>

definition is_double :: "real \<Rightarrow> bool" where
  "is_double x = (round_to_double x = Some x)"

text \<open>
  \<open>are_close\<close> of the source at \<^verbatim>\<open>Value = Tolerance = double\<close>, statement by statement:
  \<^verbatim>\<open>difference = abs(b - a)\<close>, \<^verbatim>\<open>scale = abs(a) + abs(b)\<close>,
  \<^verbatim>\<open>difference <= tolerance * p3a::max(scale, Value(1))\<close>.
\<close>

definition are_close_double :: "real \<Rightarrow> real \<Rightarrow> real \<Rightarrow> bool option" where
  "are_close_double a b tolerance =
     (case round_to_double (b - a) of
        None \<Rightarrow> None
      | Some d \<Rightarrow>
          (let difference = \<bar>d\<bar>
           in case round_to_double (\<bar>a\<bar> + \<bar>b\<bar>) of
                None \<Rightarrow> None
              | Some scale \<Rightarrow>
                  (case round_to_double (tolerance * max scale 1) of
                     None \<Rightarrow> None
                   | Some bound \<Rightarrow> Some (difference \<le> bound))))"

section \<open>The safeguarded inversion solver\<close>

text \<open>
  \<^verbatim>\<open>p3a::invert_differentiable_function\<close> is declared in \<^verbatim>\<open>p3a_search.hpp\<close>, which
  the unit test includes and calls; the header itself is not among the sources. The solver
  below is therefore written from the specification (sections 3, 4.1 and 7), with the
  interface of the call in the unit test. What the specification leaves open (section 9:
  the iteration cap and the rule of adequate progress; section 4.1: what counts as a
  near-zero derivative and as a collapsed bracket) is a parameter of the model, collected
  in \<open>solver_policy\<close>, and never a number chosen here.
\<close>

text \<open>
  Modelled from the spec: the failures of the solver of \<^verbatim>\<open>p3a_search.hpp\<close> (section 7),
  without the failure of a callback.
\<close>

datatype search_error = InvalidBracket | NonConvergence

text \<open>
  Modelled from the spec: the three callbacks of the interface, domain value to state, state to range value, state
  to derivative. They are deterministic and free of side effects (section 4.1), so they are
  functions; the failure of a callback is not modelled.
\<close>

record 'st callbacks =
  state_from_domain_value :: "real \<Rightarrow> 'st"
  range_value_from_state :: "'st \<Rightarrow> real"
  derivative_value_from_state :: "'st \<Rightarrow> real"

text \<open>
  Modelled from the spec: the in/out triple of the call (section 6), named as in the unit
  test: domain value, range value, derivative value.
\<close>

record solution =
  domain_value :: real
  range_value :: real
  derivative_value :: real

text \<open>
  Modelled from the spec: the solver state (section 3), that is, the bracket with the signed residuals (range minus target) of
  its two endpoints, and the current best point. \<open>evaluated\<close> records, in order, every
  domain value the solver has passed to \<open>state_from_domain_value\<close>; each entry stands for
  one call of that callback followed by one call of each of the other two on the state
  it returned.
\<close>

record solver_state =
  bracket_lo :: real
  residual_lo :: real
  bracket_hi :: real
  residual_hi :: real
  best :: solution
  evaluated :: "real list"

text \<open>
  Modelled from the spec: the choices sections 4.1 and 9 leave open. \<open>adequate_progress\<close>
  sees the whole solver state, the evaluated domain values included, and the candidate.
\<close>

record solver_policy =
  iteration_cap :: nat
  derivative_near_zero :: "real \<Rightarrow> bool"
  adequate_progress :: "solver_state \<Rightarrow> real \<Rightarrow> bool"
  bracket_collapsed :: "real \<Rightarrow> real \<Rightarrow> bool"

text \<open>
  Modelled from the spec: step 3a of the solver of \<^verbatim>\<open>p3a_search.hpp\<close>, the Newton
  candidate \<open>x - (range - target) / derivative\<close>.
\<close>

definition newton_candidate :: "solution \<Rightarrow> real \<Rightarrow> real" where
  "newton_candidate b target =
     domain_value b - (range_value b - target) / derivative_value b"

text \<open>Modelled from the spec: step 3b, a candidate strictly inside the open bracket.\<close>

definition strictly_inside :: "solver_state \<Rightarrow> real \<Rightarrow> bool" where
  "strictly_inside st x = (bracket_lo st < x \<and> x < bracket_hi st)"

text \<open>
  Modelled from the spec: steps 3a and 3b of the solver. Newton is unavailable on a
  near-zero derivative; its candidate is accepted only strictly inside the open bracket
  and with adequate progress; otherwise the candidate is the midpoint of the bracket.
\<close>

definition choose_candidate :: "solver_policy \<Rightarrow> real \<Rightarrow> solver_state \<Rightarrow> real" where
  "choose_candidate p target st =
     (let c = newton_candidate (best st) target
      in if \<not> derivative_near_zero p (derivative_value (best st))
            \<and> strictly_inside st c \<and> adequate_progress p st c
         then c
         else average (bracket_lo st) (bracket_hi st))"

text \<open>
  Modelled from the spec: step 3d of the solver. The endpoint whose residual has the sign
  of the new residual is replaced by the new point. Signs are compared with \<open>sign\<close> of
  the numeric primitives.
\<close>

definition update_bracket :: "solver_state \<Rightarrow> real \<Rightarrow> real \<Rightarrow> solver_state" where
  "update_bracket st x r =
     (if sign r = sign (residual_lo st)
      then st\<lparr>bracket_lo := x, residual_lo := r\<rparr>
      else st\<lparr>bracket_hi := x, residual_hi := r\<rparr>)"

text \<open>
  Modelled from the spec: steps 3a to 3d of the solver, one iteration with one evaluation
  of the three callbacks.
\<close>

definition solver_step ::
  "solver_policy \<Rightarrow> 'st callbacks \<Rightarrow> real \<Rightarrow> solver_state \<Rightarrow> solver_state" where
  "solver_step p cb target st =
     (let x = choose_candidate p target st;
          s = state_from_domain_value cb x;
          r = range_value_from_state cb s;
          d = derivative_value_from_state cb s
      in (update_bracket st x (r - target))
           \<lparr>best := \<lparr>domain_value = x, range_value = r, derivative_value = d\<rparr>,
            evaluated := evaluated st @ [x]\<rparr>)"

text \<open>
  Modelled from the spec: step 3e of the solver, the tolerance predicate on the residual
  or a collapsed bracket.
\<close>

definition finished :: "solver_policy \<Rightarrow> real \<Rightarrow> real \<Rightarrow> solver_state \<Rightarrow> bool" where
  "finished p target tolerance st =
     (are_close (range_value (best st)) target tolerance
      \<or> bracket_collapsed p (bracket_lo st) (bracket_hi st))"

text \<open>
  Modelled from the spec: steps 3 and 4 of the solver. The loop is bounded by the number
  of iterations left; it returns the final best point, or \<open>NonConvergence\<close> when the
  iterations are used up, and in both cases the list of the domain values it evaluated.
\<close>

fun iterate ::
  "solver_policy \<Rightarrow> 'st callbacks \<Rightarrow> real \<Rightarrow> real \<Rightarrow> nat \<Rightarrow> solver_state
     \<Rightarrow> (search_error + solution) \<times> real list" where
  "iterate p cb target tolerance 0 st = (Inl NonConvergence, evaluated st)"
| "iterate p cb target tolerance (Suc n) st =
     (let st' = solver_step p cb target st
      in if finished p target tolerance st' then (Inr (best st'), evaluated st')
         else iterate p cb target tolerance n st')"

text \<open>
  Modelled from the spec: the solver states of a run of the loop, in order: the state at the start of every
  iteration and the state the last iteration produced. It follows the recursion of
  \<open>iterate\<close> equation by equation.
\<close>

fun bracket_states ::
  "solver_policy \<Rightarrow> 'st callbacks \<Rightarrow> real \<Rightarrow> real \<Rightarrow> nat \<Rightarrow> solver_state
     \<Rightarrow> solver_state list" where
  "bracket_states p cb target tolerance 0 st = [st]"
| "bracket_states p cb target tolerance (Suc n) st =
     st # (let st' = solver_step p cb target st
           in if finished p target tolerance st' then [st']
              else bracket_states p cb target tolerance n st')"

text \<open>
  Modelled from the spec: the precondition of section 4.1, the target between the range
  values at the two bounds, in either order.
\<close>

definition target_is_bracketed :: "real \<Rightarrow> real \<Rightarrow> real \<Rightarrow> bool" where
  "target_is_bracketed target range_at_minimum range_at_maximum =
     (range_at_minimum \<le> target \<and> target \<le> range_at_maximum
      \<or> range_at_maximum \<le> target \<and> target \<le> range_at_minimum)"

text \<open>
  Modelled from the spec: steps 1 and 2 of the solver. The bracket is the two bounds, the
  best point the supplied tuple.
\<close>

definition initial_state ::
  "real \<Rightarrow> real \<Rightarrow> real \<Rightarrow> real \<Rightarrow> real \<Rightarrow> solution \<Rightarrow> solver_state" where
  "initial_state minimum_domain_value maximum_domain_value
     range_at_minimum range_at_maximum target initial =
     \<lparr>bracket_lo = minimum_domain_value, residual_lo = range_at_minimum - target,
      bracket_hi = maximum_domain_value, residual_hi = range_at_maximum - target,
      best = initial, evaluated = []\<rparr>"

text \<open>
  Modelled from the spec: \<^verbatim>\<open>p3a::invert_differentiable_function\<close> of \<^verbatim>\<open>p3a_search.hpp\<close>,
  absent from the sources. Arguments in the order of the call in the unit test: callbacks,
  target, tolerance, the two domain bounds, the range values at the two bounds, and the
  in/out triple evaluated at the minimum bound.
  \<^item> Step 1 comes first: an endpoint within tolerance is returned at once, the minimum
    endpoint before the maximum one. The minimum endpoint is the supplied triple, left as
    it is. For the maximum endpoint the solver was given no derivative and evaluates
    nothing, so the derivative slot keeps the supplied value.
  \<^item> \<open>InvalidBracket\<close> (section 7) is reported when the target is not between the two
    supplied range values.
  \<^item> Otherwise the loop runs for at most \<open>iteration_cap\<close> iterations.
\<close>

definition invert_differentiable_function ::
  "solver_policy \<Rightarrow> 'st callbacks \<Rightarrow> real \<Rightarrow> real \<Rightarrow> real \<Rightarrow> real \<Rightarrow> real \<Rightarrow> real
     \<Rightarrow> solution \<Rightarrow> (search_error + solution) \<times> real list" where
  "invert_differentiable_function p cb desired_range_value tolerance
     minimum_domain_value maximum_domain_value
     range_at_minimum_domain_value range_at_maximum_domain_value initial =
     (if are_close range_at_minimum_domain_value desired_range_value tolerance
      then (Inr initial, [])
      else if are_close range_at_maximum_domain_value desired_range_value tolerance
      then (Inr \<lparr>domain_value = maximum_domain_value,
                 range_value = range_at_maximum_domain_value,
                 derivative_value = derivative_value initial\<rparr>, [])
      else if \<not> target_is_bracketed desired_range_value
                  range_at_minimum_domain_value range_at_maximum_domain_value
      then (Inl InvalidBracket, [])
      else iterate p cb desired_range_value tolerance (iteration_cap p)
             (initial_state minimum_domain_value maximum_domain_value
                range_at_minimum_domain_value range_at_maximum_domain_value
                desired_range_value initial))"

text \<open>
  Modelled from the spec: one admissible policy, used to run the solver on concrete inputs: the given cap,
  Newton unavailable exactly on a zero derivative, every candidate strictly inside the
  bracket counted as adequate progress, and a bracket collapsed when it has no width.
\<close>

definition plain_policy :: "nat \<Rightarrow> solver_policy" where
  "plain_policy cap =
     \<lparr>iteration_cap = cap,
      derivative_near_zero = (\<lambda>d. d = 0),
      adequate_progress = (\<lambda>st c. True),
      bracket_collapsed = (\<lambda>a b. b \<le> a)\<rparr>"

section \<open>The unit test \<^verbatim>\<open>invert_linear\<close>\<close>

text \<open>
  \<^verbatim>\<open>
  int evaluation_counter = 0;
  auto const state_from_domain_value = [&] (double x) -> double { ++evaluation_counter; return x; };
  auto const range_value_from_state = [] (double x) -> double { return x; };
  auto const derivative_value_from_state = [] (double) -> double { return 1.0; };
  \<close>
\<close>

definition linear_callbacks :: "real callbacks" where
  "linear_callbacks =
     \<lparr>state_from_domain_value = (\<lambda>x. x),
      range_value_from_state = (\<lambda>x. x),
      derivative_value_from_state = (\<lambda>_. 1)\<rparr>"


section \<open>The unit test \<^verbatim>\<open>invert_cosine\<close>\<close>





section \<open>The bracketing invariant\<close>





section \<open>The closeness test\<close>

lemma double_exponent_eq:
  assumes "2 powi k \<le> \<bar>x\<bar>" and "\<bar>x\<bar> < 2 powi (k + 1)" and "- 1022 \<le> k"
  shows "double_exponent x = k"
proof -
  have "(0::real) < 2 powi k" by simp
  with assms(1) have pos: "0 < \<bar>x\<bar>" by linarith
  have "(2::real) powr real_of_int k = 2 powi k"
    and "(2::real) powr (real_of_int k + 1) = 2 powi (k + 1)"
    using powr_real_of_int' [of 2 k] powr_real_of_int' [of 2 "k + 1"] by simp_all
  then have "2 powr real_of_int k \<le> \<bar>x\<bar> \<and> \<bar>x\<bar> < 2 powr (real_of_int k + 1)"
    using assms(1,2) by simp
  then have "\<lfloor>log 2 \<bar>x\<bar>\<rfloor> = k"
    using pos floor_log_eq_powr_iff [of "\<bar>x\<bar>" 2 k] by simp
  then show ?thesis using assms(3) by (simp add: double_exponent_def)
qed

lemma round_to_double_eq:
  assumes "2 powi k \<le> \<bar>x\<bar>" and "\<bar>x\<bar> < 2 powi (k + 1)" and "- 1022 \<le> k"
    and "round_ties_even (x / 2 powi (k - 52)) = m"
    and "\<bar>of_int m * 2 powi (k - 52)\<bar> < (2::real) ^ 1024"
  shows "round_to_double x = Some (of_int m * 2 powi (k - 52))"
proof -
  have "(0::real) < 2 powi k" by simp
  with assms(1) have "0 < \<bar>x\<bar>" by linarith
  then have "x \<noteq> 0" by simp
  then show ?thesis
    using assms(4,5) by (simp add: round_to_double_def Let_def double_exponent_eq [OF assms(1,2,3)])
qed

lemma round_ties_even_eq:
  assumes "of_int f \<le> y" and "y < of_int f + 1"
  shows "round_ties_even y =
           (if y - of_int f < 1 / 2 then f
            else if 1 / 2 < y - of_int f then f + 1
            else if even f then f else f + 1)"
proof -
  have "\<lfloor>y\<rfloor> = f" using assms by (rule floor_unique)
  then show ?thesis by (simp add: round_ties_even_def Let_def)
qed

lemma round_one_half: "round_to_double (1 / 2) = Some (1 / 2)"
proof -
  have v: "(1 / 2) / 2 powi (- 1 - 52) = (of_int (2 ^ 52) :: real)"
    by (simp add: power_int_minus)
  have m: "round_ties_even ((1 / 2) / 2 powi (- 1 - 52)) = 2 ^ 52"
    unfolding v by (subst round_ties_even_eq [of "2 ^ 52"]) simp_all
  have "round_to_double (1 / 2) = Some (of_int (2 ^ 52) * 2 powi (- 1 - 52))"
    by (rule round_to_double_eq [OF _ _ _ m]) (simp_all add: power_int_minus)
  then show ?thesis by (simp add: power_int_minus)
qed

lemma round_half_plus: "round_to_double (1 / 2 + 1 / 2 ^ 55) = Some (1 / 2)"
proof -
  have v: "(1 / 2 + 1 / 2 ^ 55) / 2 powi (- 1 - 52) = (of_int (2 ^ 52) + 1 / 4 :: real)"
    by (simp add: power_int_minus field_simps)
  have m: "round_ties_even ((1 / 2 + 1 / 2 ^ 55) / 2 powi (- 1 - 52)) = 2 ^ 52"
    unfolding v by (subst round_ties_even_eq [of "2 ^ 52"]) simp_all
  have "round_to_double (1 / 2 + 1 / 2 ^ 55) = Some (of_int (2 ^ 52) * 2 powi (- 1 - 52))"
    by (rule round_to_double_eq [OF _ _ _ m]) (simp_all add: power_int_minus)
  then show ?thesis by (simp add: power_int_minus)
qed

lemma round_half_minus: "round_to_double (- (1 / 2 ^ 55) - 1 / 2) = Some (- (1 / 2))"
proof -
  have v: "(- (1 / 2 ^ 55) - 1 / 2) / 2 powi (- 1 - 52)
             = (of_int (- (2 ^ 52) - 1) + 3 / 4 :: real)"
    by (simp add: power_int_minus field_simps)
  have m: "round_ties_even ((- (1 / 2 ^ 55) - 1 / 2) / 2 powi (- 1 - 52)) = - (2 ^ 52)"
    unfolding v by (subst round_ties_even_eq [of "- (2 ^ 52) - 1"]) simp_all
  have "round_to_double (- (1 / 2 ^ 55) - 1 / 2)
          = Some (of_int (- (2 ^ 52)) * 2 powi (- 1 - 52))"
    by (rule round_to_double_eq [OF _ _ _ m]) (simp_all add: power_int_minus)
  then show ?thesis by (simp add: power_int_minus)
qed

lemma round_tiny: "round_to_double (- (1 / 2 ^ 55)) = Some (- (1 / 2 ^ 55))"
proof -
  have v: "(- (1 / 2 ^ 55)) / 2 powi (- 55 - 52) = (of_int (- (2 ^ 52)) :: real)"
    by (simp add: power_int_minus)
  have m: "round_ties_even ((- (1 / 2 ^ 55)) / 2 powi (- 55 - 52)) = - (2 ^ 52)"
    unfolding v by (subst round_ties_even_eq [of "- (2 ^ 52)"]) simp_all
  have "round_to_double (- (1 / 2 ^ 55)) = Some (of_int (- (2 ^ 52)) * 2 powi (- 55 - 52))"
    by (rule round_to_double_eq [OF _ _ _ m]) (simp_all add: power_int_minus)
  then show ?thesis by (simp add: power_int_minus)
qed

lemma are_close_double_eq:
  assumes "round_to_double (b - a) = Some d"
    and "round_to_double (\<bar>a\<bar> + \<bar>b\<bar>) = Some s"
    and "round_to_double (t * max s 1) = Some r"
  shows "are_close_double a b t = Some (\<bar>d\<bar> \<le> r)"
  using assms by (simp add: are_close_double_def Let_def)

lemma round_two: "round_to_double 2 = Some 2"
proof -
  have v: "2 / 2 powi (1 - 52) = (of_int (2 ^ 52) :: real)"
    by (simp add: power_int_minus)
  have m: "round_ties_even (2 / 2 powi (1 - 52)) = 2 ^ 52"
    unfolding v by (subst round_ties_even_eq [of "2 ^ 52"]) simp_all
  have "round_to_double 2 = Some (of_int (2 ^ 52) * 2 powi (1 - 52))"
    by (rule round_to_double_eq [OF _ _ _ m]) (simp_all add: power_int_minus)
  then show ?thesis by (simp add: power_int_minus)
qed

lemma round_four: "round_to_double 4 = Some 4"
proof -
  have v: "4 / 2 powi (2 - 52) = (of_int (2 ^ 52) :: real)"
    by (simp add: power_int_minus)
  have m: "round_ties_even (4 / 2 powi (2 - 52)) = 2 ^ 52"
    unfolding v by (subst round_ties_even_eq [of "2 ^ 52"]) simp_all
  have "round_to_double 4 = Some (of_int (2 ^ 52) * 2 powi (2 - 52))"
    by (rule round_to_double_eq [OF _ _ _ m]) (simp_all add: power_int_minus)
  then show ?thesis by (simp add: power_int_minus)
qed

text \<open>
  The closeness test at \<^verbatim>\<open>double\<close> is not the exact inequality: for the doubles
  \<open>a = 1/2\<close>, \<open>b = - 2^-55\<close> and \<open>t = 1/2\<close> the difference \<open>- 1/2 - 2^-55\<close> rounds to
  \<open>- 1/2\<close> and the scale \<open>1/2 + 2^-55\<close> to \<open>1/2\<close>, so the code compares \<open>1/2 \<le> 1/2\<close> and
  answers true, while \<open>|b - a| = 1/2 + 2^-55\<close> is greater than
  \<open>t * max(|a| + |b|, 1) = 1/2\<close>.
\<close>

theorem are_close_double_rounding_counterexample:
  "is_double (1 / 2) \<and> is_double (- (1 / 2 ^ 55))
   \<and> are_close_double (1 / 2) (- (1 / 2 ^ 55)) (1 / 2) = Some True
   \<and> \<not> \<bar>- (1 / 2 ^ 55) - 1 / 2 :: real\<bar>
         \<le> 1 / 2 * max (\<bar>1 / 2\<bar> + \<bar>- (1 / 2 ^ 55)\<bar>) 1"
proof -
  have "\<bar>1 / 2\<bar> + \<bar>- (1 / 2 ^ 55)\<bar> = (1 / 2 + 1 / 2 ^ 55 :: real)" by simp
  then have s: "round_to_double (\<bar>1 / 2\<bar> + \<bar>- (1 / 2 ^ 55)\<bar>) = Some (1 / 2)"
    using round_half_plus by (simp only:)
  have "1 / 2 * max (1 / 2) 1 = (1 / 2 :: real)" by simp
  then have r: "round_to_double (1 / 2 * max (1 / 2) 1) = Some (1 / 2)"
    using round_one_half by (simp only:)
  have "are_close_double (1 / 2) (- (1 / 2 ^ 55)) (1 / 2)
          = Some (\<bar>- (1 / 2) :: real\<bar> \<le> 1 / 2)"
    using round_half_minus s r by (rule are_close_double_eq)
  then have c: "are_close_double (1 / 2) (- (1 / 2 ^ 55)) (1 / 2) = Some True"
    by simp
  have e: "\<not> \<bar>- (1 / 2 ^ 55) - 1 / 2 :: real\<bar>
               \<le> 1 / 2 * max (\<bar>1 / 2\<bar> + \<bar>- (1 / 2 ^ 55)\<bar>) 1"
    by simp
  have i: "is_double (1 / 2)" "is_double (- (1 / 2 ^ 55))"
    unfolding is_double_def by (rule round_one_half, rule round_tiny)
  show ?thesis using i c e by blast
qed

text \<open>
  C1, as amended. For doubles \<open>a\<close>, \<open>b\<close>, \<open>t\<close> none of whose intermediate results
  overflows, the closeness test answers true exactly when the rounded difference is at
  most the rounded product of the tolerance and the larger of 1 and the rounded scale.
  Whenever the difference \<open>b - a\<close>, the scale \<open>|a| + |b|\<close> and the product
  \<open>t * max(|a| + |b|, 1)\<close> are themselves doubles, so that nothing is rounded, this is the
  exact test \<open>|b - a| \<le> t * max(|a| + |b|, 1)\<close>, the value of the template \<open>are_close\<close>
  over the reals.
\<close>

theorem are_close_double_iff:
  "(round_to_double (b - a) = Some d
      \<and> round_to_double (\<bar>a\<bar> + \<bar>b\<bar>) = Some s
      \<and> round_to_double (t * max s 1) = Some r
    \<longrightarrow> are_close_double a b t = Some (\<bar>d\<bar> \<le> r))
   \<and> (is_double (b - a) \<and> is_double (\<bar>a\<bar> + \<bar>b\<bar>)
      \<and> is_double (t * max (\<bar>a\<bar> + \<bar>b\<bar>) 1)
    \<longrightarrow> are_close_double a b t = Some (\<bar>b - a\<bar> \<le> t * max (\<bar>a\<bar> + \<bar>b\<bar>) 1)
        \<and> are_close_double a b t = Some (are_close a b t))"
  using are_close_double_eq [of b a d s t r]
    are_close_double_eq [of b a "b - a" "\<bar>a\<bar> + \<bar>b\<bar>" t "t * max (\<bar>a\<bar> + \<bar>b\<bar>) 1"]
  by (simp add: is_double_def are_close_def Let_def)

theorem are_close_double_iff_witness:
  "is_double (3 - 1) \<and> is_double (\<bar>1\<bar> + \<bar>3\<bar>) \<and> is_double (1 / 2 * max (\<bar>1\<bar> + \<bar>3\<bar>) 1)
   \<and> are_close_double 1 3 (1 / 2) = Some True"
proof -
  have "(3 - 1 :: real) = 2" "\<bar>1\<bar> + \<bar>3\<bar> = (4 :: real)"
    "1 / 2 * max (\<bar>1\<bar> + \<bar>3\<bar>) 1 = (2 :: real)"
    by simp_all
  then have h: "is_double (3 - 1)" "is_double (\<bar>1\<bar> + \<bar>3\<bar>)"
    "is_double (1 / 2 * max (\<bar>1\<bar> + \<bar>3\<bar>) 1)"
    unfolding is_double_def using round_two round_four by (simp_all only:)
  have "are_close_double 1 3 (1 / 2)
          = Some (\<bar>3 - 1 :: real\<bar> \<le> 1 / 2 * max (\<bar>1\<bar> + \<bar>3\<bar>) 1)"
    using h are_close_double_iff [of 3 1 0 0 "1 / 2" 0] by blast
  then have "are_close_double 1 3 (1 / 2) = Some True" by simp
  then show ?thesis using h by blast
qed

text \<open>
  C9. The closeness test is symmetric in its two values: exchanging the achieved range
  value and the target does not change its answer, whatever the tolerance.
\<close>

theorem are_close_commute:
  "are_close a b t = are_close b a t"
  by (simp add: are_close_def Let_def abs_minus_commute add.commute)

section \<open>The sign primitive\<close>

text \<open>
  C10. \<open>sign\<close> returns 1 for every input that is not negative, in particular for zero,
  and -1 for every negative input.
\<close>

theorem sign_of_nonnegative_and_negative:
  "(0 \<le> x \<longrightarrow> sign x = 1) \<and> (x < 0 \<longrightarrow> sign x = - 1) \<and> sign 0 = 1"
  by (simp add: sign_def)

theorem sign_of_nonnegative_and_negative_witness:
  "(0::real) \<le> 5 \<and> sign 5 = 1 \<and> (- 3::real) < 0 \<and> sign (- 3) = - 1 \<and> sign 0 = 1"
  using sign_of_nonnegative_and_negative [of 5] sign_of_nonnegative_and_negative [of "- 3"]
  by simp

section \<open>Facts about one iteration\<close>

lemma evaluated_update_bracket [simp]:
  "evaluated (update_bracket st x r) = evaluated st"
  by (simp add: update_bracket_def)

lemma best_solver_step:
  "best (solver_step p cb target st) =
     \<lparr>domain_value = choose_candidate p target st,
      range_value =
        range_value_from_state cb (state_from_domain_value cb (choose_candidate p target st)),
      derivative_value =
        derivative_value_from_state cb
          (state_from_domain_value cb (choose_candidate p target st))\<rparr>"
  by (simp add: solver_step_def Let_def)

lemma evaluated_solver_step:
  "evaluated (solver_step p cb target st) = evaluated st @ [choose_candidate p target st]"
  by (simp add: solver_step_def Let_def)

lemma bracket_solver_step:
  "bracket_lo (solver_step p cb target st) = bracket_lo st \<and>
     bracket_hi (solver_step p cb target st) = choose_candidate p target st
   \<or> bracket_lo (solver_step p cb target st) = choose_candidate p target st \<and>
     bracket_hi (solver_step p cb target st) = bracket_hi st"
  by (simp add: solver_step_def Let_def update_bracket_def)


lemma choose_candidate_within:
  assumes "bracket_lo st \<le> bracket_hi st"
  shows "bracket_lo st \<le> choose_candidate p target st
         \<and> choose_candidate p target st \<le> bracket_hi st"
  using assms by (simp add: choose_candidate_def Let_def strictly_inside_def average_def)

section \<open>The linear case\<close>

text \<open>
  The call of the unit test \<open>invert_linear\<close>: from the minimum bound 0 with range value 0
  and derivative 1, the Newton candidate is \<open>0 - (0 - 3/10) / 1 = 3/10\<close>. When the policy
  takes it, its range value is the target and the loop stops after this one evaluation.
\<close>

lemma linear_search:
  assumes "0 < iteration_cap p"
    and "\<not> derivative_near_zero p 1"
    and "adequate_progress p (initial_state 0 1 0 1 (3 / 10)
           \<lparr>domain_value = 0, range_value = 0, derivative_value = 1\<rparr>) (3 / 10)"
  shows "invert_differentiable_function p linear_callbacks (3 / 10) (1 / 1000000) 0 1 0 1
           \<lparr>domain_value = 0, range_value = 0, derivative_value = 1\<rparr>
         = (Inr \<lparr>domain_value = 3 / 10, range_value = 3 / 10, derivative_value = 1\<rparr>,
            [3 / 10])"
proof -
  let ?init = "\<lparr>domain_value = 0, range_value = 0, derivative_value = 1\<rparr>"
  let ?st = "initial_state 0 1 0 1 (3 / 10) ?init"
  let ?st' = "solver_step p linear_callbacks (3 / 10) ?st"
  obtain n where n: "iteration_cap p = Suc n"
    using assms(1) by (cases "iteration_cap p") simp_all
  have c: "choose_candidate p (3 / 10) ?st = 3 / 10"
    unfolding choose_candidate_def Let_def newton_candidate_def strictly_inside_def
    using assms(2,3) by (simp add: initial_state_def)
  have s: "best ?st' = \<lparr>domain_value = 3 / 10, range_value = 3 / 10, derivative_value = 1\<rparr>"
    by (simp add: best_solver_step c linear_callbacks_def)
  have e: "evaluated ?st' = [3 / 10]"
    unfolding evaluated_solver_step c by (simp add: initial_state_def)
  have f: "finished p (3 / 10) (1 / 1000000) ?st'"
    by (simp add: finished_def s are_close_def Let_def)
  have "iterate p linear_callbacks (3 / 10) (1 / 1000000) (iteration_cap p) ?st
          = (Inr \<lparr>domain_value = 3 / 10, range_value = 3 / 10, derivative_value = 1\<rparr>,
             [3 / 10])"
    by (simp add: n Let_def f s e)
  then show ?thesis
    by (simp add: invert_differentiable_function_def are_close_def Let_def
        target_is_bracketed_def)
qed

lemma linear_search_plain:
  "invert_differentiable_function (plain_policy 100) linear_callbacks (3 / 10) (1 / 1000000)
     0 1 0 1 \<lparr>domain_value = 0, range_value = 0, derivative_value = 1\<rparr>
   = (Inr \<lparr>domain_value = 3 / 10, range_value = 3 / 10, derivative_value = 1\<rparr>, [3 / 10])"
  by (rule linear_search) (simp_all add: plain_policy_def)




section \<open>Bracket containment\<close>

lemma iterate_within:
  assumes "mn \<le> bracket_lo st" "bracket_lo st \<le> bracket_hi st" "bracket_hi st \<le> mx"
    and "fst (iterate p cb target tol n st) = Inr sol"
  shows "mn \<le> domain_value sol \<and> domain_value sol \<le> mx"
  using assms
proof (induction n arbitrary: st)
  case 0
  then show ?case by simp
next
  case (Suc n)
  let ?x = "choose_candidate p target st"
  let ?st = "solver_step p cb target st"
  have x: "bracket_lo st \<le> ?x \<and> ?x \<le> bracket_hi st"
    using Suc.prems(2) by (rule choose_candidate_within)
  show ?case
  proof (cases "finished p target tol ?st")
    case True
    with Suc.prems(4) have "sol = best ?st" by (simp add: Let_def)
    then have "domain_value sol = ?x" by (simp add: best_solver_step)
    with x Suc.prems(1,3) show ?thesis by simp
  next
    case False
    with Suc.prems(4) have r: "fst (iterate p cb target tol n ?st) = Inr sol"
      by (simp add: Let_def)
    have "mn \<le> bracket_lo ?st \<and> bracket_lo ?st \<le> bracket_hi ?st \<and> bracket_hi ?st \<le> mx"
      using bracket_solver_step [of p cb target st] x Suc.prems(1,2,3) by auto
    then show ?thesis using Suc.IH [of ?st] r by blast
  qed
qed

text \<open>
  C5. Whenever the solver returns a domain value, that value lies in the closed interval
  of the supplied domain bounds. The bounds are ordered and the supplied triple is the
  evaluation at the minimum bound, as the interface requires; the statement holds in
  particular when the target lies between the two endpoint range values, in either order
  (otherwise nothing is returned).
\<close>

theorem returned_domain_value_within_bounds:
  assumes "mn \<le> mx" and "domain_value init = mn"
    and "fst (invert_differentiable_function p cb target tol mn mx rmin rmax init) = Inr sol"
  shows "mn \<le> domain_value sol \<and> domain_value sol \<le> mx"
proof -
  let ?st = "initial_state mn mx rmin rmax target init"
  have b: "mn \<le> bracket_lo ?st" "bracket_lo ?st \<le> bracket_hi ?st" "bracket_hi ?st \<le> mx"
    using assms(1) by (simp_all add: initial_state_def)
  show ?thesis
    using assms iterate_within [OF b, of p cb target tol "iteration_cap p" sol]
    by (auto simp add: invert_differentiable_function_def split: if_splits)
qed

theorem returned_domain_value_within_bounds_witness:
  "fst (invert_differentiable_function (plain_policy 100) linear_callbacks (3 / 10)
          (1 / 1000000) 0 1 0 1 \<lparr>domain_value = 0, range_value = 0, derivative_value = 1\<rparr>)
     = Inr \<lparr>domain_value = 3 / 10, range_value = 3 / 10, derivative_value = 1\<rparr>
   \<and> (0::real) \<le> domain_value
         \<lparr>domain_value = 3 / 10, range_value = 3 / 10, derivative_value = 1\<rparr>
   \<and> domain_value \<lparr>domain_value = 3 / 10, range_value = 3 / 10, derivative_value = 1\<rparr>
       \<le> (1::real)"
proof -
  have r: "fst (invert_differentiable_function (plain_policy 100) linear_callbacks (3 / 10)
                  (1 / 1000000) 0 1 0 1
                  \<lparr>domain_value = 0, range_value = 0, derivative_value = 1\<rparr>)
             = Inr \<lparr>domain_value = 3 / 10, range_value = 3 / 10, derivative_value = 1\<rparr>"
    by (simp add: linear_search_plain)
  have o: "(0::real) \<le> 1" by simp
  have d: "domain_value \<lparr>domain_value = 0, range_value = 0, derivative_value = 1\<rparr> = 0"
    by simp
  show ?thesis
    using r returned_domain_value_within_bounds [OF o d r] by blast
qed

section \<open>The immediate-boundary case\<close>

text \<open>
  C6. If the range value at the minimum bound is already within tolerance of the target,
  the solver returns the supplied triple unchanged (domain value, range value and
  derivative of the minimum endpoint) and evaluates no domain value.
\<close>

theorem minimum_endpoint_within_tolerance:
  assumes "are_close rmin target tol"
  shows "invert_differentiable_function p cb target tol mn mx rmin rmax init = (Inr init, [])"
  using assms by (simp add: invert_differentiable_function_def)

theorem minimum_endpoint_within_tolerance_witness:
  "are_close (3 / 10 :: real) (3 / 10) (1 / 1000000)
   \<and> invert_differentiable_function (plain_policy 100) linear_callbacks (3 / 10)
       (1 / 1000000) (3 / 10) 1 (3 / 10) 1
       \<lparr>domain_value = 3 / 10, range_value = 3 / 10, derivative_value = 1\<rparr>
     = (Inr \<lparr>domain_value = 3 / 10, range_value = 3 / 10, derivative_value = 1\<rparr>, [])"
proof -
  have c: "are_close (3 / 10 :: real) (3 / 10) (1 / 1000000)"
    by (simp add: are_close_def Let_def)
  show ?thesis
    using c minimum_endpoint_within_tolerance [OF c] by blast
qed

section \<open>Runs on the jump callbacks\<close>



section \<open>The bracketing invariant of the loop\<close>

lemma bracket_states_Cons:
  "\<exists>rest. bracket_states p cb target tol n st = st # rest"
  by (cases n) simp_all








lemma iterate_evaluated_last:
  "snd (iterate p cb target tol n st) = evaluated (last (bracket_states p cb target tol n st))"
proof (induction n arbitrary: st)
  case 0
  then show ?case by simp
next
  case (Suc n)
  obtain rest where r: "bracket_states p cb target tol n (solver_step p cb target st)
      = solver_step p cb target st # rest"
    using bracket_states_Cons by blast
  show ?case using Suc.IH [of "solver_step p cb target st"] by (simp add: Let_def r)
qed



section \<open>Non-convergence\<close>






section \<open>Convergence on the cosine\<close>












end
